theory Spec2Isabelle
  imports Main "HOL-Library.Multiset" "HOL-Library.Code_Target_Nat"
begin

section \<open>Python string primitives\<close>

text \<open>
  The tools of \<^verbatim>\<open>components/nexgen\<close> work on Python \<^verbatim>\<open>str\<close> values. A string is modelled
  as a list of characters; a \<^typ>\<open>char\<close> stands for a code point below 256, so the model
  covers the inputs written in Latin-1. In that range the characters for which
  \<^verbatim>\<open>str.isspace\<close> holds are the twelve listed below, and the only decimal digits are
  \<^verbatim>\<open>0\<close> to \<^verbatim>\<open>9\<close>.
\<close>

definition isspace :: "char \<Rightarrow> bool" where
  "isspace c = (c \<in> set [CHR 0x09, CHR 0x0A, CHR 0x0B, CHR 0x0C, CHR 0x0D,
                          CHR 0x1C, CHR 0x1D, CHR 0x1E, CHR 0x1F, CHR 0x20,
                          CHR 0x85, CHR 0xA0])"

definition isdigit :: "char \<Rightarrow> bool" where
  "isdigit c = (c \<in> set ''0123456789'')"

text \<open>\<^verbatim>\<open>s.strip()\<close> and \<^verbatim>\<open>s.strip(chars)\<close>: every leading and every trailing character of
  the given class is removed.\<close>

definition strip_with :: "(char \<Rightarrow> bool) \<Rightarrow> string \<Rightarrow> string" where
  "strip_with P s = rev (dropWhile P (rev (dropWhile P s)))"

definition strip :: "string \<Rightarrow> string" where
  "strip s = strip_with isspace s"

definition strip_chars :: "string \<Rightarrow> string \<Rightarrow> string" where
  "strip_chars chars s = strip_with (\<lambda>c. c \<in> set chars) s"

text \<open>\<^verbatim>\<open>s.split(sep)\<close> for a one-character separator: one more piece than there are
  separators, empty pieces kept.\<close>

fun split_sep :: "char \<Rightarrow> string \<Rightarrow> string list" where
  "split_sep sep [] = [[]]"
| "split_sep sep (c # cs) =
     (if c = sep then [] # split_sep sep cs
      else (case split_sep sep cs of [] \<Rightarrow> [[c]] | w # ws \<Rightarrow> (c # w) # ws))"

text \<open>\<^verbatim>\<open>s.split(sep, maxsplit=1)\<close>: the text before the first separator and everything after
  it, or the string alone when it has no separator.\<close>

definition split_maxsplit1 :: "char \<Rightarrow> string \<Rightarrow> string list" where
  "split_maxsplit1 sep s =
     (case dropWhile (\<lambda>c. c \<noteq> sep) s of
        [] \<Rightarrow> [s]
      | _ # rest \<Rightarrow> [takeWhile (\<lambda>c. c \<noteq> sep) s, rest])"

text \<open>\<^verbatim>\<open>sep.join(parts)\<close>, used to write an input from its segments.\<close>

fun join_sep :: "char \<Rightarrow> string list \<Rightarrow> string" where
  "join_sep sep [] = []"
| "join_sep sep [p] = p"
| "join_sep sep (p # q # ps) = p @ sep # join_sep sep (q # ps)"

section \<open>Outcomes of a tool's parse step\<close>

text \<open>
  \<^verbatim>\<open>build\<close> either returns \<^verbatim>\<open>Data(data={"error": ...})\<close>, or reaches the request with the
  \<^verbatim>\<open>params\<close> dictionary it has built, or leaves through an exception that no handler of
  \<^verbatim>\<open>build\<close> catches. \<^verbatim>\<open>ValueError\<close> is the one exception the source handles.
\<close>

datatype exn = ValueError | TypeError | OverflowError

datatype 'a parse_result = Record 'a | ParseError string

datatype 'a outcome = Returned 'a | Raised exn

section \<open>The segment loop\<close>

text \<open>
  Lines 54 to 61 of \<^verbatim>\<open>inventorycheck.py\<close> and 51 to 58 of \<^verbatim>\<open>pricecheck.py\<close> are the same
  text: the segment is trimmed and split at its first \<^verbatim>\<open>=\<close>; the key is trimmed; the value
  is trimmed and then \<^verbatim>\<open>.strip('"')\<close> is applied.
\<close>

definition raw_value_of :: "string \<Rightarrow> string" where
  "raw_value_of v = strip_chars ''\"'' (strip v)"

definition key_value :: "string \<Rightarrow> string + (string \<times> string)" where
  "key_value part =
     (let sub_parts = split_maxsplit1 CHR ''='' (strip part) in
      if length sub_parts \<noteq> 2 then Inl (''Could not parse segment: '' @ part)
      else Inr (strip (sub_parts ! 0), raw_value_of (sub_parts ! 1)))"

type_synonym stock_vars = "string option \<times> string option \<times> string option"

definition stock_assign :: "string \<Rightarrow> stock_vars \<Rightarrow> string + stock_vars" where
  "stock_assign part vars =
     (case key_value part of
        Inl err \<Rightarrow> Inl err
      | Inr (key, raw_value) \<Rightarrow>
          (case vars of (buyer_part_number, order_quantity, requested_fulfillment_date) \<Rightarrow>
             if key = ''buyer_part_number''
               then Inr (Some raw_value, order_quantity, requested_fulfillment_date)
             else if key = ''order_quantity''
               then Inr (buyer_part_number, Some raw_value, requested_fulfillment_date)
             else if key = ''requested_fulfillment_date''
               then Inr (buyer_part_number, order_quantity, Some raw_value)
             else Inl (''Unrecognized key '' @ CHR 0x27 # key @ CHR 0x27 # '' in segment: '' @ part)))"

fun stock_segments :: "string list \<Rightarrow> stock_vars \<Rightarrow> string + stock_vars" where
  "stock_segments [] vars = Inr vars"
| "stock_segments (part # parts) vars =
     (case stock_assign part vars of
        Inl err \<Rightarrow> Inl err
      | Inr vars' \<Rightarrow> stock_segments parts vars')"

type_synonym price_vars = "string option \<times> string option"

definition price_assign :: "string \<Rightarrow> price_vars \<Rightarrow> string + price_vars" where
  "price_assign part vars =
     (case key_value part of
        Inl err \<Rightarrow> Inl err
      | Inr (key, raw_value) \<Rightarrow>
          (case vars of (buyer_part_number, po_price_str) \<Rightarrow>
             if key = ''buyer_part_number'' then Inr (Some raw_value, po_price_str)
             else if key = ''po_price'' then Inr (buyer_part_number, Some raw_value)
             else Inl (''Unrecognized key '' @ CHR 0x27 # key @ CHR 0x27 # '' in segment: '' @ part)))"

fun price_segments :: "string list \<Rightarrow> price_vars \<Rightarrow> string + price_vars" where
  "price_segments [] vars = Inr vars"
| "price_segments (part # parts) vars =
     (case price_assign part vars of
        Inl err \<Rightarrow> Inl err
      | Inr vars' \<Rightarrow> price_segments parts vars')"

section \<open>The builtin \<^verbatim>\<open>float\<close> on a string, and \<^verbatim>\<open>int\<close> on a float\<close>

text \<open>
  A Python float is an IEEE 754 binary64 value. \<open>Finite neg m e\<close> stands for
  \<open>(-1)\<^bsup>neg\<^esup> \<times> m \<times> 2\<^bsup>e\<^esup>\<close>, with \<open>m\<close> odd, or \<open>m = 0\<close> and \<open>e = 0\<close> for the two zeros.
\<close>

datatype pyfloat = Finite bool nat int | Infinity bool | NaN

definition digit_val :: "char \<Rightarrow> nat" where
  "digit_val c = length (takeWhile (\<lambda>d. d \<noteq> c) ''0123456789'')"

definition nat_of_digits :: "string \<Rightarrow> nat" where
  "nat_of_digits ds = foldl (\<lambda>a c. 10 * a + digit_val c) 0 ds"

text \<open>ASCII lower case, as \<^verbatim>\<open>Py_TOLOWER\<close>; only the letters of \<^verbatim>\<open>infinity\<close> and \<^verbatim>\<open>nan\<close>
  are ever compared.\<close>

definition tolower :: "char \<Rightarrow> char" where
  "tolower c =
     (case map_of (zip ''ABCDEFGHIJKLMNOPQRSTUVWXYZ'' ''abcdefghijklmnopqrstuvwxyz'') c of
        None \<Rightarrow> c
      | Some l \<Rightarrow> l)"

text \<open>
  Underscores (CPython's \<^verbatim>\<open>_Py_string_to_number_with_underscores\<close>): each must stand
  between two digits; they are removed before the number is read. \<open>prev\<close> is the
  character before, \<^verbatim>\<open>'\0'\<close> at the start.
\<close>

fun remove_underscores :: "char \<Rightarrow> string \<Rightarrow> string option" where
  "remove_underscores prev [] = (if prev = CHR ''_'' then None else Some [])"
| "remove_underscores prev (c # cs) =
     (if c = CHR ''_'' then (if isdigit prev then remove_underscores c cs else None)
      else if prev = CHR ''_'' \<and> \<not> isdigit c then None
      else map_option ((#) c) (remove_underscores c cs))"

text \<open>An optional sign: whether it is \<^verbatim>\<open>-\<close>, and the text after it.\<close>

definition take_sign :: "string \<Rightarrow> bool \<times> string" where
  "take_sign s =
     (case s of
        [] \<Rightarrow> (False, [])
      | c # cs \<Rightarrow> if c = CHR ''-'' then (True, cs)
                  else if c = CHR ''+'' then (False, cs)
                  else (False, s))"

text \<open>
  The exponent part: empty, or \<^verbatim>\<open>e\<close> or \<^verbatim>\<open>E\<close>, an optional sign and at least one digit,
  up to the end of the text. \<open>None\<close> when text remains that is no exponent.
\<close>

definition exponent_part :: "string \<Rightarrow> int option" where
  "exponent_part s =
     (case s of
        [] \<Rightarrow> Some 0
      | c # cs \<Rightarrow>
          if c = CHR ''e'' \<or> c = CHR ''E'' then
            (case take_sign cs of (neg, ds) \<Rightarrow>
               if ds \<noteq> [] \<and> list_all isdigit ds
               then Some (if neg then - int (nat_of_digits ds) else int (nat_of_digits ds))
               else None)
          else None)"

text \<open>
  A decimal numeral \<^verbatim>\<open>[digits][.digits][exponent]\<close> with a digit before or after the
  point: the pair \<open>(n, x)\<close> of its value \<open>n \<times> 10\<^bsup>x\<^esup>\<close>.
\<close>

definition decimal_numeral :: "string \<Rightarrow> (nat \<times> int) option" where
  "decimal_numeral s =
     (let int_digits = takeWhile isdigit s;
          after_int = dropWhile isdigit s;
          frac_digits = (case after_int of
                           [] \<Rightarrow> []
                         | c # cs \<Rightarrow> if c = CHR ''.'' then takeWhile isdigit cs else []);
          after_frac = (case after_int of
                          [] \<Rightarrow> []
                        | c # cs \<Rightarrow> if c = CHR ''.'' then dropWhile isdigit cs else after_int)
      in if int_digits = [] \<and> frac_digits = [] then None
         else (case exponent_part after_frac of
                 None \<Rightarrow> None
               | Some x \<Rightarrow> Some (nat_of_digits (int_digits @ frac_digits),
                                 x - int (length frac_digits))))"

text \<open>Rounding the positive rational \<open>num / den\<close> to binary64, to nearest, ties to even.\<close>

fun bitlen :: "nat \<Rightarrow> nat" where
  "bitlen n = (if n = 0 then 0 else Suc (bitlen (n div 2)))"

function odd_mantissa :: "nat \<Rightarrow> int \<Rightarrow> nat \<times> int" where
  "odd_mantissa m e =
     (if m = 0 then (0, 0)
      else if even m then odd_mantissa (m div 2) (e + 1)
      else (m, e))"
  by pat_completeness auto
termination
  by (relation "measure fst") auto

definition round_binary64 :: "bool \<Rightarrow> nat \<Rightarrow> nat \<Rightarrow> pyfloat" where
  "round_binary64 neg num den =
     (if num = 0 then Finite neg 0 0
      else
        let k = int (bitlen num) - int (bitlen den);
            ge_pow = (if k \<ge> 0 then den * 2 ^ nat k \<le> num else den \<le> num * 2 ^ nat (- k));
            floor_log2 = (if ge_pow then k else k - 1);
            e = max (floor_log2 - 52) (- 1074);
            N = (if e < 0 then num * 2 ^ nat (- e) else num);
            D = (if e < 0 then den else den * 2 ^ nat e);
            q = N div D;
            r = N mod D;
            m = (if D < 2 * r \<or> (2 * r = D \<and> odd q) then q + 1 else q)
        in if m \<ge> 2 ^ 53 \<and> e + 1 > 971 then Infinity neg
           else if e > 971 then Infinity neg
           else (case odd_mantissa m e of (m', e') \<Rightarrow> Finite neg m' e'))"

text \<open>
  \<^verbatim>\<open>float(x)\<close>: \<^verbatim>\<open>TypeError\<close> on \<^verbatim>\<open>None\<close>; on a string, surrounding whitespace is
  dropped, then a sign and \<^verbatim>\<open>inf\<close>, \<^verbatim>\<open>infinity\<close>, \<^verbatim>\<open>nan\<close> (in any case) or a decimal
  numeral must fill the text, else \<^verbatim>\<open>ValueError\<close>.
\<close>

definition float_of_str :: "string \<Rightarrow> exn + pyfloat" where
  "float_of_str s =
     (case remove_underscores (CHR 0x00) (strip s) of
        None \<Rightarrow> Inl ValueError
      | Some t \<Rightarrow>
          (case take_sign t of (neg, body) \<Rightarrow>
             if map tolower body = ''inf'' \<or> map tolower body = ''infinity''
               then Inr (Infinity neg)
             else if map tolower body = ''nan'' then Inr NaN
             else (case decimal_numeral body of
                     None \<Rightarrow> Inl ValueError
                   | Some (n, x) \<Rightarrow>
                       Inr (if x \<ge> 0 then round_binary64 neg (n * 10 ^ nat x) 1
                            else round_binary64 neg n (10 ^ nat (- x))))))"

definition float :: "string option \<Rightarrow> exn + pyfloat" where
  "float x = (case x of None \<Rightarrow> Inl TypeError | Some s \<Rightarrow> float_of_str s)"

text \<open>\<^verbatim>\<open>int(f)\<close> truncates toward zero; it raises \<^verbatim>\<open>OverflowError\<close> on an infinity and
  \<^verbatim>\<open>ValueError\<close> on a NaN.\<close>

definition int_of_float :: "pyfloat \<Rightarrow> exn + int" where
  "int_of_float f =
     (case f of
        NaN \<Rightarrow> Inl ValueError
      | Infinity neg \<Rightarrow> Inl OverflowError
      | Finite neg m e \<Rightarrow>
          (let mag = (if e \<ge> 0 then int m * 2 ^ nat e else int m div 2 ^ nat (- e))
           in Inr (if neg then - mag else mag)))"

section \<open>\<^verbatim>\<open>datetime.strptime\<close> and \<^verbatim>\<open>date.strftime\<close>\<close>

record date =
  year :: nat
  month :: nat
  day :: nat

text \<open>
  The directives that the two formats of the source use. \<^verbatim>\<open>_strptime\<close> turns a format
  into a regular expression, one group per directive:
  \<^verbatim>\<open>%m\<close> is \<^verbatim>\<open>1[0-2]|0[1-9]|[1-9]\<close>, \<^verbatim>\<open>%d\<close> is \<^verbatim>\<open>3[0-1]|[1-2]\d|0[1-9]|[1-9]| [1-9]\<close>,
  \<^verbatim>\<open>%y\<close> is \<^verbatim>\<open>\d\d\<close>, \<^verbatim>\<open>%Y\<close> is \<^verbatim>\<open>\d\d\d\d\<close>, and any other character is itself.
\<close>

datatype fmt_item = Month | Day | Year2 | Year4 | Lit char

text \<open>One alternative of a group, a sequence of character classes: the text it matches at
  the start of \<open>s\<close> and the text left, or nothing.\<close>

definition seq :: "string list \<Rightarrow> string \<Rightarrow> (string \<times> string) list" where
  "seq classes s =
     (let n = length classes in
      if n \<le> length s \<and> list_all2 (\<lambda>cls c. c \<in> set cls) classes (take n s)
      then [(take n s, drop n s)] else [])"

text \<open>The alternatives of a group in the order the regular expression tries them.\<close>

fun re_item :: "fmt_item \<Rightarrow> string \<Rightarrow> (string \<times> string) list" where
  "re_item Month s =
     seq [''1'', ''012''] s @ seq [''0'', ''123456789''] s @ seq [''123456789''] s"
| "re_item Day s =
     seq [''3'', ''01''] s @ seq [''12'', ''0123456789''] s @ seq [''0'', ''123456789''] s
       @ seq [''123456789''] s @ seq ['' '', ''123456789''] s"
| "re_item Year2 s = seq [''0123456789'', ''0123456789''] s"
| "re_item Year4 s =
     seq [''0123456789'', ''0123456789'', ''0123456789'', ''0123456789''] s"
| "re_item (Lit c) s = seq [[c]] s"

text \<open>All matches of a format at the start of the text, in backtracking order: the groups
  with the text each matched, and the text left over. \<^verbatim>\<open>re.match\<close> returns the first.\<close>

fun re_match :: "fmt_item list \<Rightarrow> string \<Rightarrow> ((fmt_item \<times> string) list \<times> string) list" where
  "re_match [] s = [([], s)]"
| "re_match (it # its) s =
     concat (map (\<lambda>(t, r). map (\<lambda>(groups, r'). ((it, t) # groups, r')) (re_match its r))
                 (re_item it s))"

text \<open>\<^verbatim>\<open>int\<close> on the text of a group (digits, after a blank for some days).\<close>

definition int_of_group :: "string \<Rightarrow> nat" where
  "int_of_group t = nat_of_digits (strip t)"

definition is_leap :: "nat \<Rightarrow> bool" where
  "is_leap y = (y mod 4 = 0 \<and> (y mod 100 \<noteq> 0 \<or> y mod 400 = 0))"

definition days_in_month :: "nat \<Rightarrow> nat \<Rightarrow> nat" where
  "days_in_month y m =
     (if m = 2 then (if is_leap y then 29 else 28)
      else if m \<in> {4, 6, 9, 11} then 30 else 31)"

text \<open>The check of the \<^verbatim>\<open>date\<close> constructor.\<close>

definition valid_date :: "nat \<Rightarrow> nat \<Rightarrow> nat \<Rightarrow> bool" where
  "valid_date y m d =
     (1 \<le> y \<and> y \<le> 9999 \<and> 1 \<le> m \<and> m \<le> 12 \<and> 1 \<le> d \<and> d \<le> days_in_month y m)"

text \<open>
  \<^verbatim>\<open>datetime.strptime(data, fmt).date()\<close>: \<^verbatim>\<open>TypeError\<close> when the data is \<^verbatim>\<open>None\<close>;
  \<^verbatim>\<open>ValueError\<close> when the expression does not match, when text is left after the match,
  or when the fields are no date. A two-digit year up to 68 is in 2000, a later one in 1900.
\<close>

definition strptime :: "string option \<Rightarrow> fmt_item list \<Rightarrow> exn + date" where
  "strptime data_string fmt =
     (case data_string of
        None \<Rightarrow> Inl TypeError
      | Some s \<Rightarrow>
          (case re_match fmt s of
             [] \<Rightarrow> Inl ValueError
           | (found, rest) # _ \<Rightarrow>
               if rest \<noteq> [] then Inl ValueError
               else
                 let y = (case map_of found Year2 of
                            Some t \<Rightarrow> (if int_of_group t \<le> 68 then int_of_group t + 2000
                                       else int_of_group t + 1900)
                          | None \<Rightarrow> (case map_of found Year4 of
                                       Some t \<Rightarrow> int_of_group t
                                     | None \<Rightarrow> 1900));
                     m = (case map_of found Month of Some t \<Rightarrow> int_of_group t | None \<Rightarrow> 1);
                     d = (case map_of found Day of Some t \<Rightarrow> int_of_group t | None \<Rightarrow> 1)
                 in if valid_date y m d then Inr \<lparr>year = y, month = m, day = d\<rparr>
                    else Inl ValueError))"

definition digit_char :: "nat \<Rightarrow> char" where
  "digit_char n = ''0123456789'' ! (n mod 10)"

text \<open>The last \<open>w\<close> decimal digits of \<open>n\<close>: the zero-padded numeral of width \<open>w\<close> when
  \<open>n < 10\<^bsup>w\<^esup>\<close>, which holds for the year, month and day of every \<^verbatim>\<open>date\<close>.\<close>

primrec zero_padded :: "nat \<Rightarrow> nat \<Rightarrow> string" where
  "zero_padded 0 n = []"
| "zero_padded (Suc w) n = zero_padded w (n div 10) @ [digit_char n]"

text \<open>\<^verbatim>\<open>d.strftime("%Y-%m-%d")\<close>, with the year written on four digits.\<close>

definition strftime_Ymd :: "date \<Rightarrow> string" where
  "strftime_Ymd d =
     zero_padded 4 (year d) @ ''-'' @ zero_padded 2 (month d) @ ''-'' @ zero_padded 2 (day d)"

text \<open>
  The round trip of the specification's idempotence property needs one step that the
  source does not have: rewriting the normalized text \<^verbatim>\<open>YYYY-MM-DD\<close> in the accepted input
  format \<^verbatim>\<open>MM/DD/YYYY\<close>. This definition follows the specification's words.
\<close>

definition mdY_of_iso :: "string \<Rightarrow> string" where
  "mdY_of_iso text = take 2 (drop 5 text) @ ''/'' @ take 2 (drop 8 text) @ ''/'' @ take 4 text"

section \<open>The parse step of the two tools\<close>

text \<open>
  The \<^verbatim>\<open>params\<close> dictionary that \<^verbatim>\<open>build\<close> hands to the request: keys with a string, an
  integer or a float, in the order of the dictionary display.
\<close>

datatype pyval = PyStr string | PyInt int | PyFloat pyfloat

type_synonym params = "(string \<times> pyval) list"

subsection \<open>\<^verbatim>\<open>StockCheckTool.build\<close>, lines 38 to 116\<close>

definition stock_count_error :: string where
  "stock_count_error =
     ''Expected exactly 3 comma-separated segments. Format: buyer_part_number=\"...\", order_quantity=\"...\", requested_fulfillment_date=\"...\"''"

definition part_number_error :: string where
  "part_number_error = '''buyer_part_number' must be a non-empty string.''"

definition quantity_positive_error :: string where
  "quantity_positive_error = '''order_quantity' must be a positive integer.''"

definition quantity_integer_error :: string where
  "quantity_integer_error =
     '''order_quantity' must be a valid integer (e.g., '32100', '32100.000').''"

definition date_format_error :: string where
  "date_format_error =
     '''requested_fulfillment_date' must be in 'MM/DD/YY' or 'MM/DD/YYYY' format (e.g., '5/1/25' or '5/1/2025').''"

definition tried_formats :: "fmt_item list list" where
  "tried_formats =
     [[Month, Lit CHR ''/'', Day, Lit CHR ''/'', Year2],
      [Month, Lit CHR ''/'', Day, Lit CHR ''/'', Year4]]"

text \<open>The loop over \<^verbatim>\<open>tried_formats\<close>: the first format that parses wins, a \<^verbatim>\<open>ValueError\<close>
  moves on to the next format, any other exception leaves the loop and \<^verbatim>\<open>build\<close>.\<close>

fun try_formats :: "string option \<Rightarrow> fmt_item list list \<Rightarrow> exn + date option" where
  "try_formats data [] = Inr None"
| "try_formats data (fmt # fmts) =
     (case strptime data fmt of
        Inr requested_date_obj \<Rightarrow> Inr (Some requested_date_obj)
      | Inl e \<Rightarrow> if e = ValueError then try_formats data fmts else Inl e)"

text \<open>Steps 3 to 6: the checks on the three variables after the loop.\<close>

definition stock_validate :: "stock_vars \<Rightarrow> params parse_result outcome" where
  "stock_validate vars =
     (case vars of (buyer_part_number, order_quantity, requested_fulfillment_date) \<Rightarrow>
        (case buyer_part_number of
           None \<Rightarrow> Returned (ParseError part_number_error)
         | Some bpn \<Rightarrow>
             if bpn = [] \<or> strip bpn = [] then Returned (ParseError part_number_error)
             else
               (case (case float order_quantity of
                        Inl e \<Rightarrow> Inl e
                      | Inr quantity_float \<Rightarrow> int_of_float quantity_float) of
                  Inl e \<Rightarrow>
                    if e = ValueError then Returned (ParseError quantity_integer_error)
                    else Raised e
                | Inr order_quantity_int \<Rightarrow>
                    if order_quantity_int \<le> 0
                    then Returned (ParseError quantity_positive_error)
                    else
                      (case try_formats requested_fulfillment_date tried_formats of
                         Inl e \<Rightarrow> Raised e
                       | Inr None \<Rightarrow> Returned (ParseError date_format_error)
                       | Inr (Some requested_date_obj) \<Rightarrow>
                           Returned (Record
                             [(''buyer_part_number'', PyStr (strip bpn)),
                              (''order_quantity'', PyInt order_quantity_int),
                              (''requested_fulfillment_date'',
                                 PyStr (strftime_Ymd requested_date_obj))])))))"

definition stock_build :: "string \<Rightarrow> params parse_result outcome" where
  "stock_build input_str =
     (let parts = split_sep CHR '','' (strip input_str) in
      if length parts \<noteq> 3 then Returned (ParseError stock_count_error)
      else (case stock_segments parts (None, None, None) of
              Inl err \<Rightarrow> Returned (ParseError err)
            | Inr vars \<Rightarrow> stock_validate vars))"

subsection \<open>\<^verbatim>\<open>PriceCheckTool.build\<close>, lines 37 to 88\<close>

definition price_count_error :: string where
  "price_count_error =
     ''Expected exactly 2 comma-separated segments. Format: buyer_part_number=\"...\", po_price=\"...\"''"

definition price_number_error :: string where
  "price_number_error = '''po_price' must be a valid number (e.g., '125.50').''"

definition price_validate :: "price_vars \<Rightarrow> params parse_result outcome" where
  "price_validate vars =
     (case vars of (buyer_part_number, po_price_str) \<Rightarrow>
        (case buyer_part_number of
           None \<Rightarrow> Returned (ParseError part_number_error)
         | Some bpn \<Rightarrow>
             if bpn = [] \<or> strip bpn = [] then Returned (ParseError part_number_error)
             else
               (case float po_price_str of
                  Inl e \<Rightarrow>
                    if e = ValueError then Returned (ParseError price_number_error)
                    else Raised e
                | Inr po_price_float \<Rightarrow>
                    Returned (Record
                      [(''buyer_part_number'', PyStr (strip bpn)),
                       (''po_price'', PyFloat po_price_float)]))))"

definition price_build :: "string \<Rightarrow> params parse_result outcome" where
  "price_build input_str =
     (let parts = split_sep CHR '','' (strip input_str) in
      if length parts \<noteq> 2 then Returned (ParseError price_count_error)
      else (case price_segments parts (None, None) of
              Inl err \<Rightarrow> Returned (ParseError err)
            | Inr vars \<Rightarrow> price_validate vars))"

section \<open>The segment count is checked first\<close>

text \<open>
  Claim C3. Whatever the segments hold, an input whose trimmed text does not split at
  commas into three pieces (inventory) or two pieces (price) is answered with the
  segment-count message of the tool, which names the count and the expected format. The
  instance below is a well-formed inventory input followed by one stray comma.
\<close>

theorem segment_count_checked_first:
  "(length (split_sep CHR '','' (strip input_str)) \<noteq> 3 \<longrightarrow>
      stock_build input_str = Returned (ParseError stock_count_error)) \<and>
   (length (split_sep CHR '','' (strip input_str)) \<noteq> 2 \<longrightarrow>
      price_build input_str = Returned (ParseError price_count_error))"
  by (simp add: stock_build_def price_build_def Let_def)

theorem segment_count_checked_first_witness:
  "length (split_sep CHR '','' (strip
     ''buyer_part_number=\"3010228002\", order_quantity=\"32100.000\", requested_fulfillment_date=\"02/13/2025\",''))
     \<noteq> 3 \<and>
   stock_build
     ''buyer_part_number=\"3010228002\", order_quantity=\"32100.000\", requested_fulfillment_date=\"02/13/2025\",''
   = Returned (ParseError
       ''Expected exactly 3 comma-separated segments. Format: buyer_part_number=\"...\", order_quantity=\"...\", requested_fulfillment_date=\"...\"'')"
proof -
  let ?s = "''buyer_part_number=\"3010228002\", order_quantity=\"32100.000\", requested_fulfillment_date=\"02/13/2025\",''"
  have h: "length (split_sep CHR '','' (strip ?s)) \<noteq> 3"
    by code_simp
  have "stock_build ?s = Returned (ParseError stock_count_error)"
    using segment_count_checked_first [of ?s] h by (rule conjunct1 [THEN mp])
  then show ?thesis
    using h unfolding stock_count_error_def by (rule conjI [rotated])
qed

section \<open>The inventory tool on concrete inputs\<close>

text \<open>
  Claim C7. The example input of the tool's own description parses to the part number as
  a string, the quantity \<^verbatim>\<open>32100.000\<close> truncated to the integer 32100, and the date
  rewritten as \<^verbatim>\<open>2025-02-13\<close>.
\<close>

theorem stock_build_example:
  "stock_build
     ''buyer_part_number=\"3010228002\", order_quantity=\"32100.000\", requested_fulfillment_date=\"02/13/2025\"''
   = Returned (Record
       [(''buyer_part_number'', PyStr ''3010228002''),
        (''order_quantity'', PyInt 32100),
        (''requested_fulfillment_date'', PyStr ''2025-02-13'')])"
  by code_simp

text \<open>
  Claim C5. The formats are tried in the order two-digit year, four-digit year, and the
  first that parses wins: \<^verbatim>\<open>02/13/25\<close> is read by the first format; \<^verbatim>\<open>02/13/2025\<close> is
  refused by the first (text remains after \<^verbatim>\<open>02/13/20\<close>) and read by the second; both
  reach the request as \<^verbatim>\<open>2025-02-13\<close>; \<^verbatim>\<open>13/40/2025\<close> is read by neither and is answered
  with the date-format message.
\<close>

theorem date_formats_tried_in_order:
  "tried_formats =
     [[Month, Lit CHR ''/'', Day, Lit CHR ''/'', Year2],
      [Month, Lit CHR ''/'', Day, Lit CHR ''/'', Year4]] \<and>
   strptime (Some ''02/13/25'') (tried_formats ! 0)
     = Inr \<lparr>year = 2025, month = 2, day = 13\<rparr> \<and>
   strptime (Some ''02/13/2025'') (tried_formats ! 0) = Inl ValueError \<and>
   strptime (Some ''02/13/2025'') (tried_formats ! 1)
     = Inr \<lparr>year = 2025, month = 2, day = 13\<rparr> \<and>
   stock_build
     ''buyer_part_number=\"3010228002\", order_quantity=\"32100.000\", requested_fulfillment_date=\"02/13/25\"''
   = Returned (Record
       [(''buyer_part_number'', PyStr ''3010228002''),
        (''order_quantity'', PyInt 32100),
        (''requested_fulfillment_date'', PyStr ''2025-02-13'')]) \<and>
   stock_build
     ''buyer_part_number=\"3010228002\", order_quantity=\"32100.000\", requested_fulfillment_date=\"02/13/2025\"''
   = Returned (Record
       [(''buyer_part_number'', PyStr ''3010228002''),
        (''order_quantity'', PyInt 32100),
        (''requested_fulfillment_date'', PyStr ''2025-02-13'')]) \<and>
   stock_build
     ''buyer_part_number=\"3010228002\", order_quantity=\"32100.000\", requested_fulfillment_date=\"13/40/2025\"''
   = Returned (ParseError
       '''requested_fulfillment_date' must be in 'MM/DD/YY' or 'MM/DD/YYYY' format (e.g., '5/1/25' or '5/1/2025').'')"
  by code_simp

text \<open>
  Claim C6. The quantities \<^verbatim>\<open>0\<close> and \<^verbatim>\<open>-5\<close> are answered with the positive-integer
  message and \<^verbatim>\<open>abc\<close> with the valid-integer message; the two messages differ.
\<close>

theorem quantity_messages:
  "stock_build
     ''buyer_part_number=\"3010228002\", order_quantity=\"0\", requested_fulfillment_date=\"02/13/2025\"''
   = Returned (ParseError '''order_quantity' must be a positive integer.'') \<and>
   stock_build
     ''buyer_part_number=\"3010228002\", order_quantity=\"-5\", requested_fulfillment_date=\"02/13/2025\"''
   = Returned (ParseError '''order_quantity' must be a positive integer.'') \<and>
   stock_build
     ''buyer_part_number=\"3010228002\", order_quantity=\"abc\", requested_fulfillment_date=\"02/13/2025\"''
   = Returned (ParseError
       '''order_quantity' must be a valid integer (e.g., '32100', '32100.000').'') \<and>
   quantity_positive_error \<noteq> quantity_integer_error"
  by code_simp

text \<open>
  Claim C1 fails on the source. When \<^verbatim>\<open>buyer_part_number\<close> is given twice, no segment
  assigns \<^verbatim>\<open>order_quantity\<close>; it is still \<^verbatim>\<open>None\<close> at \<^verbatim>\<open>float(order_quantity)\<close>, which
  raises \<^verbatim>\<open>TypeError\<close>, and the handler around it catches \<^verbatim>\<open>ValueError\<close> only. The same
  happens in the price tool, at \<^verbatim>\<open>strptime\<close> when the date is the field left out, and, with
  \<^verbatim>\<open>OverflowError\<close>, at \<^verbatim>\<open>int\<close> of an infinite quantity.
\<close>

theorem repeated_key_raises:
  "stock_build
     ''buyer_part_number=\"3010228002\", buyer_part_number=\"3010228003\", requested_fulfillment_date=\"02/13/2025\"''
   = Raised TypeError \<and>
   stock_build
     ''buyer_part_number=\"3010228002\", order_quantity=\"32100.000\", order_quantity=\"1\"''
   = Raised TypeError \<and>
   stock_build
     ''buyer_part_number=\"3010228002\", order_quantity=\"inf\", requested_fulfillment_date=\"02/13/2025\"''
   = Raised OverflowError \<and>
   price_build ''buyer_part_number=\"3010228002\", buyer_part_number=\"3010228003\"''
   = Raised TypeError"
  by code_simp

section \<open>The price tool on concrete inputs\<close>

text \<open>
  Claim C10. \<^verbatim>\<open>float\<close> reads \<^verbatim>\<open>nan\<close>, \<^verbatim>\<open>inf\<close>, \<^verbatim>\<open>-inf\<close> and \<^verbatim>\<open>Infinity\<close>; the price tool
  has no further check, so each reaches the request as a float that is not finite.
\<close>

theorem non_finite_prices_accepted:
  "price_build ''buyer_part_number=\"3010228002\", po_price=\"nan\"''
   = Returned (Record
       [(''buyer_part_number'', PyStr ''3010228002''), (''po_price'', PyFloat NaN)]) \<and>
   price_build ''buyer_part_number=\"3010228002\", po_price=\"inf\"''
   = Returned (Record
       [(''buyer_part_number'', PyStr ''3010228002''),
        (''po_price'', PyFloat (Infinity False))]) \<and>
   price_build ''buyer_part_number=\"3010228002\", po_price=\"-inf\"''
   = Returned (Record
       [(''buyer_part_number'', PyStr ''3010228002''),
        (''po_price'', PyFloat (Infinity True))]) \<and>
   price_build ''buyer_part_number=\"3010228002\", po_price=\"Infinity\"''
   = Returned (Record
       [(''buyer_part_number'', PyStr ''3010228002''),
        (''po_price'', PyFloat (Infinity False))])"
  by code_simp

section \<open>What the segment loop does with quotes\<close>

text \<open>Stripping a text that is framed by characters of the class removes the frame and
  nothing else.\<close>

lemma strip_with_framed:
  assumes "\<forall>c \<in> set pre. P c" and "\<forall>c \<in> set post. P c"
    and "t = [] \<or> (\<not> P (hd t) \<and> \<not> P (last t))"
  shows "strip_with P (pre @ t @ post) = t"
proof (cases "t = []")
  case True
  have "\<forall>x \<in> set (pre @ post). P x"
    using assms(1,2) by auto
  then have a: "dropWhile P (pre @ [] @ post) = []"
    by (simp only: dropWhile_eq_Nil_conv append_Nil)
  show ?thesis unfolding True strip_with_def a by simp
next
  case False
  with assms(3) have h: "\<not> P (hd t)" and l: "\<not> P (last t)" by auto
  have 1: "dropWhile P (pre @ t @ post) = t @ post"
    using assms(1) False h by (cases t) simp_all
  obtain x xs where xs: "rev t = x # xs" and x: "x = last t"
    using False by (cases "rev t") (simp_all add: last_rev [symmetric])
  have "\<And>c. c \<in> set (rev post) \<Longrightarrow> P c"
    using assms(2) by simp
  then have "dropWhile P (rev post @ rev t) = dropWhile P (rev t)"
    by (rule dropWhile_append2)
  then have 2: "dropWhile P (rev post @ rev t) = rev t"
    using l by (simp add: xs x [symmetric])
  show ?thesis by (simp add: strip_with_def 1 2)
qed

lemma strip_with_dropWhile: "strip_with P (dropWhile P s) = strip_with P s"
  by (simp add: strip_with_def)

lemma not_isspace_quote: "\<not> isspace (CHR 0x22)" "\<not> isspace CHR ''=''"  "\<not> isspace CHR '',''"
  by (simp_all add: isspace_def)

lemma raw_value_of_quoted:
  assumes "s = [] \<or> (hd s \<noteq> CHR 0x22 \<and> last s \<noteq> CHR 0x22)" and "0 < n" and "0 < m"
  shows "raw_value_of (replicate n (CHR 0x22) @ s @ replicate m (CHR 0x22)) = s"
proof -
  let ?t = "replicate n (CHR 0x22) @ s @ replicate m (CHR 0x22)"
  have ne: "?t \<noteq> []" using assms(2) by simp
  have hd: "hd ?t = CHR 0x22" using assms(2) by (cases n) simp_all
  have la: "last ?t = CHR 0x22" using assms(3) by (cases m) (simp_all add: replicate_append_same [symmetric] del: replicate_Suc)
  have "strip_with isspace ([] @ ?t @ []) = ?t"
    by (rule strip_with_framed) (simp_all add: hd la not_isspace_quote del: append_Nil append_Nil2)
  then have 1: "strip ?t = ?t" by (simp add: strip_def)
  have 2: "strip_with (\<lambda>c. c \<in> set [CHR 0x22]) ?t = s"
    using assms(1)
    by (intro strip_with_framed [of "replicate n (CHR 0x22)" "\<lambda>c. c \<in> set [CHR 0x22]"
          "replicate m (CHR 0x22)" s]) simp_all
  show ?thesis unfolding raw_value_of_def strip_chars_def 1 by (rule 2)
qed

lemma key_value_split:
  assumes "CHR ''='' \<notin> set k" and "v \<noteq> []" and "\<not> isspace (last v)"
  shows "key_value (k @ CHR ''='' # v) = Inr (strip k, raw_value_of v)"
proof -
  let ?k = "dropWhile isspace k"
  have 1: "dropWhile isspace (k @ CHR ''='' # v) = ?k @ CHR ''='' # v"
    by (simp add: dropWhile_append3 not_isspace_quote)
  obtain x xs where xs: "rev v = x # xs" and x: "x = last v"
    using assms(2) by (cases "rev v") (simp_all add: last_rev [symmetric])
  have 2: "dropWhile isspace (rev v @ CHR ''='' # rev ?k) = rev v @ CHR ''='' # rev ?k"
    using assms(3) by (simp add: xs x [symmetric])
  have s: "strip (k @ CHR ''='' # v) = ?k @ CHR ''='' # v"
    by (simp add: strip_def strip_with_def 1 2)
  have nk: "\<forall>c \<in> set ?k. c \<noteq> CHR ''=''"
    using assms(1) set_dropWhileD by fastforce
  have 3: "dropWhile (\<lambda>c. c \<noteq> CHR ''='') (?k @ CHR ''='' # v) = CHR ''='' # v"
    using nk by simp
  have 4: "takeWhile (\<lambda>c. c \<noteq> CHR ''='') (?k @ CHR ''='' # v) = ?k"
    using nk by simp
  have sp: "split_maxsplit1 CHR ''='' (strip (k @ CHR ''='' # v)) = [?k, v]"
    unfolding s by (simp add: split_maxsplit1_def 3 4)
  have kk: "strip ?k = strip k"
    by (simp add: strip_def strip_with_dropWhile)
  show ?thesis unfolding key_value_def sp Let_def by (simp add: kk)
qed

text \<open>
  Claim C2, as the source has it. \<^verbatim>\<open>.strip('"')\<close> removes every leading and every trailing
  double quote of the trimmed value, not one layer: a value made of \<open>s\<close> between one or
  more double quotes on each side gives \<open>s\<close> itself, with its interior characters
  untouched, when \<open>s\<close> neither starts nor ends with a double quote. One pair of quotes and
  two pairs give the same raw value.
\<close>

theorem all_quote_layers_stripped:
  assumes "CHR ''='' \<notin> set k"
    and "s = [] \<or> (hd s \<noteq> CHR 0x22 \<and> last s \<noteq> CHR 0x22)"
    and "0 < n" and "0 < m"
  shows "key_value (k @ ''='' @ replicate n (CHR 0x22) @ s @ replicate m (CHR 0x22))
         = Inr (strip k, s)"
proof -
  let ?v = "replicate n (CHR 0x22) @ s @ replicate m (CHR 0x22)"
  have ne: "?v \<noteq> []" using assms(3) by simp
  have "last ?v = CHR 0x22"
    using assms(4) by (cases m) (simp_all add: replicate_append_same [symmetric] del: replicate_Suc)
  then have "\<not> isspace (last ?v)" by (simp only: not_isspace_quote not_False_eq_True)
  with assms(1) ne have "key_value (k @ CHR ''='' # ?v) = Inr (strip k, raw_value_of ?v)"
    by (rule key_value_split)
  then show ?thesis
    using raw_value_of_quoted [OF assms(2,3,4)] by simp
qed

theorem all_quote_layers_stripped_witness:
  "CHR ''='' \<notin> set ''po_price'' \<and>
   (''125.50'' = [] \<or> (hd ''125.50'' \<noteq> CHR 0x22 \<and> last ''125.50'' \<noteq> CHR 0x22)) \<and>
   (0::nat) < 2 \<and>
   key_value ''po_price=\"\"125.50\"\"'' = Inr (''po_price'', ''125.50'') \<and>
   key_value ''po_price=\"125.50\"'' = Inr (''po_price'', ''125.50'')"
proof -
  have k: "CHR ''='' \<notin> set ''po_price''" by simp
  have s: "''125.50'' = [] \<or> (hd ''125.50'' \<noteq> CHR 0x22 \<and> last ''125.50'' \<noteq> CHR 0x22)" by simp
  have sk: "strip ''po_price'' = ''po_price''" by code_simp
  have r2: "replicate 2 (CHR 0x22) = [CHR 0x22, CHR 0x22]" by (simp add: numeral_2_eq_2)
  have "key_value ''po_price=\"\"125.50\"\"'' = Inr (''po_price'', ''125.50'')"
    using all_quote_layers_stripped [OF k s, of 2 2] by (simp add: sk r2)
  moreover have "key_value ''po_price=\"125.50\"'' = Inr (''po_price'', ''125.50'')"
    using all_quote_layers_stripped [OF k s, of 1 1] by (simp add: sk)
  ultimately show ?thesis using k s by simp
qed

text \<open>
  Claim C2 as stated fails: the value \<^verbatim>\<open>""125.50""\<close> does not give \<^verbatim>\<open>"125.50"\<close>.
\<close>

theorem one_quote_layer_counterexample:
  "key_value ''po_price=\"\"125.50\"\"'' \<noteq> Inr (''po_price'', ''\"125.50\"'')"
  by code_simp

section \<open>The price check accepts whatever \<^verbatim>\<open>float\<close> reads\<close>










text \<open>Splitting a text that has one separator, or none.\<close>

lemma split_sep_none: "sep \<notin> set a \<Longrightarrow> split_sep sep a = [a]"
  by (induction a) auto

lemma split_sep_first: "sep \<notin> set a \<Longrightarrow> split_sep sep (a @ sep # b) = a # split_sep sep b"
  by (induction a) auto








section \<open>The order of the segments\<close>

text \<open>Trimming from the left and trimming from the right commute, and neither changes what
  a segment is read as.\<close>

lemma rstrip_Cons:
  "rev (dropWhile P (rev (c # x))) =
     (if P c \<and> (\<forall>y \<in> set x. P y) then [] else c # rev (dropWhile P (rev x)))"
  by (auto simp: dropWhile_append dropWhile_eq_Nil_conv)

lemma lstrip_rstrip_commute:
  "dropWhile P (rev (dropWhile P (rev x))) = rev (dropWhile P (rev (dropWhile P x)))"
proof (induction x)
  case Nil
  then show ?case by simp
next
  case (Cons c x)
  show ?case
  proof (cases "P c")
    case True
    show ?thesis
    proof (cases "\<forall>y \<in> set x. P y")
      case all: True
      then have d: "dropWhile P x = []" by (simp only: dropWhile_eq_Nil_conv)
      from True all show ?thesis by (simp add: rstrip_Cons d del: rev.simps)
    next
      case False
      with True Cons.IH show ?thesis by (auto simp add: rstrip_Cons simp del: rev.simps)
    qed
  next
    case False
    then show ?thesis by (simp add: rstrip_Cons del: rev.simps)
  qed
qed

lemma strip_with_rstrip: "strip_with P (rev (dropWhile P (rev x))) = strip_with P x"
  by (simp add: strip_with_def lstrip_rstrip_commute)

lemma rstrip_append_keep:
  "\<not> P c \<Longrightarrow> rev (dropWhile P (rev (a @ c # b))) = a @ c # rev (dropWhile P (rev b))"
  by (simp add: dropWhile_append3)

lemma strip_with_append_keep:
  "\<not> P c \<Longrightarrow> strip_with P (a @ c # b) = dropWhile P a @ c # rev (dropWhile P (rev b))"
  by (simp add: strip_with_def dropWhile_append3)

lemma split_sep_no_sep: "p \<in> set (split_sep sep s) \<Longrightarrow> sep \<notin> set p"
  by (induction s arbitrary: p) (auto split: if_splits list.splits)

lemma key_value_strip_eq:
  "strip p = strip p' \<Longrightarrow> key_value p = Inr kv \<Longrightarrow> key_value p' = Inr kv"
  by (auto simp: key_value_def Let_def split: if_splits)

lemma mset3_cases:
  assumes "mset [p, q, r] = {#x, y, z#}"
  shows "(p = x \<and> q = y \<and> r = z) \<or> (p = x \<and> q = z \<and> r = y) \<or>
         (p = y \<and> q = x \<and> r = z) \<or> (p = y \<and> q = z \<and> r = x) \<or>
         (p = z \<and> q = x \<and> r = y) \<or> (p = z \<and> q = y \<and> r = x)"
  using assms by (auto simp: add_eq_conv_ex)

lemma mset2_cases:
  assumes "mset [p, q] = {#x, y#}"
  shows "(p = x \<and> q = y) \<or> (p = y \<and> q = x)"
  using assms by (auto simp: add_eq_conv_ex)


lemma stock_assign_Inr:
  "stock_assign p (b, q, d) = Inr vars' \<longleftrightarrow>
     (\<exists>k v. key_value p = Inr (k, v) \<and>
        ((k = ''buyer_part_number'' \<and> vars' = (Some v, q, d)) \<or>
         (k = ''order_quantity'' \<and> vars' = (b, Some v, d)) \<or>
         (k = ''requested_fulfillment_date'' \<and> vars' = (b, q, Some v))))"
  by (auto simp: stock_assign_def split: sum.splits prod.splits)

lemma stock_segments3_mset:
  assumes "stock_segments [a, b, c] (None, None, None) = Inr (Some x, Some y, Some z)"
  shows "mset (map key_value [a, b, c]) =
           {#Inr (''buyer_part_number'', x), Inr (''order_quantity'', y),
             Inr (''requested_fulfillment_date'', z)#}"
proof -
  obtain v1 where 1: "stock_assign a (None, None, None) = Inr v1"
    and r1: "stock_segments [b, c] v1 = Inr (Some x, Some y, Some z)"
    using assms by (auto split: sum.splits)
  obtain v2 where 2: "stock_assign b v1 = Inr v2"
    and 3: "stock_assign c v2 = Inr (Some x, Some y, Some z)"
    using r1 by (auto split: sum.splits)
  obtain b1 q1 d1 where v1: "v1 = (b1, q1, d1)" by (cases v1)
  obtain b2 q2 d2 where v2: "v2 = (b2, q2, d2)" by (cases v2)
  from 1 2 3 show ?thesis
    unfolding v1 v2 stock_assign_Inr by (auto simp: add_mset_commute)
qed

lemma mset3_stock_segments:
  assumes "mset (map key_value [a, b, c]) =
           {#Inr (''buyer_part_number'', x), Inr (''order_quantity'', y),
             Inr (''requested_fulfillment_date'', z)#}"
  shows "stock_segments [a, b, c] (None, None, None) = Inr (Some x, Some y, Some z)"
proof -
  from assms have "mset [key_value a, key_value b, key_value c] =
           {#Inr (''buyer_part_number'', x), Inr (''order_quantity'', y),
             Inr (''requested_fulfillment_date'', z)#}"
    by simp
  from mset3_cases [OF this] show ?thesis
    by (elim disjE conjE) (simp_all add: stock_assign_def)
qed

lemma price_assign_Inr:
  "price_assign p (b, q) = Inr vars' \<longleftrightarrow>
     (\<exists>k v. key_value p = Inr (k, v) \<and>
        ((k = ''buyer_part_number'' \<and> vars' = (Some v, q)) \<or>
         (k = ''po_price'' \<and> vars' = (b, Some v))))"
  by (auto simp: price_assign_def split: sum.splits prod.splits)

lemma price_segments2_mset:
  assumes "price_segments [a, b] (None, None) = Inr (Some x, Some y)"
  shows "mset (map key_value [a, b]) =
           {#Inr (''buyer_part_number'', x), Inr (''po_price'', y)#}"
proof -
  obtain v1 where 1: "price_assign a (None, None) = Inr v1"
    and 2: "price_assign b v1 = Inr (Some x, Some y)"
    using assms by (auto split: sum.splits)
  obtain b1 q1 where v1: "v1 = (b1, q1)" by (cases v1)
  from 1 2 show ?thesis
    unfolding v1 price_assign_Inr by (auto simp: add_mset_commute)
qed

lemma mset2_price_segments:
  assumes "mset (map key_value [a, b]) =
           {#Inr (''buyer_part_number'', x), Inr (''po_price'', y)#}"
  shows "price_segments [a, b] (None, None) = Inr (Some x, Some y)"
proof -
  from assms have "mset [key_value a, key_value b] =
           {#Inr (''buyer_part_number'', x), Inr (''po_price'', y)#}"
    by simp
  from mset2_cases [OF this] show ?thesis
    by (elim disjE conjE) (simp_all add: price_assign_def)
qed

lemma try_formats_None: "try_formats None tried_formats = Inl TypeError"
  by (simp add: tried_formats_def strptime_def)

lemma stock_validate_Record:
  assumes "stock_validate (b, q, d) = Returned (Record r)"
  shows "\<exists>x y z. b = Some x \<and> q = Some y \<and> d = Some z"
proof -
  obtain x where b: "b = Some x"
    using assms by (cases b) (simp_all add: stock_validate_def)
  obtain y where q: "q = Some y"
    using assms b by (cases q) (simp_all add: stock_validate_def float_def split: if_splits)
  obtain z where d: "d = Some z"
    using assms b q
    by (cases d) (auto simp: stock_validate_def try_formats_None split: if_splits sum.splits)
  from b q d show ?thesis by simp
qed

lemma price_validate_Record:
  assumes "price_validate (b, q) = Returned (Record r)"
  shows "\<exists>x y. b = Some x \<and> q = Some y"
proof -
  obtain x where b: "b = Some x"
    using assms by (cases b) (simp_all add: price_validate_def)
  obtain y where q: "q = Some y"
    using assms b by (cases q) (simp_all add: price_validate_def float_def split: if_splits)
  from b q show ?thesis by simp
qed


lemma key_value_lstrip:
  "key_value p = Inr kv \<Longrightarrow> key_value (dropWhile isspace p) = Inr kv"
  by (rule key_value_strip_eq [of p]) (simp_all add: strip_def strip_with_dropWhile)

lemma key_value_rstrip:
  "key_value p = Inr kv \<Longrightarrow> key_value (rev (dropWhile isspace (rev p))) = Inr kv"
  by (rule key_value_strip_eq [of p]) (simp_all add: strip_def strip_with_rstrip)

lemma split_strip_join3:
  assumes "CHR '','' \<notin> set p1" "CHR '','' \<notin> set p2" "CHR '','' \<notin> set p3"
  shows "split_sep CHR '','' (strip (join_sep CHR '','' [p1, p2, p3])) =
           [dropWhile isspace p1, p2, rev (dropWhile isspace (rev p3))]"
proof -
  have ns: "\<not> isspace CHR '',''" by (simp add: isspace_def)
  have "strip (p1 @ CHR '','' # p2 @ CHR '','' # p3) =
          dropWhile isspace p1 @ CHR '','' # p2 @ CHR '','' # rev (dropWhile isspace (rev p3))"
    unfolding strip_def strip_with_append_keep [of isspace "CHR '',''", OF ns] rstrip_append_keep [of isspace "CHR '',''", OF ns] ..
  moreover have "CHR '','' \<notin> set (dropWhile isspace p1)"
    using assms(1) by (auto dest: set_dropWhileD)
  moreover have "CHR '','' \<notin> set (rev (dropWhile isspace (rev p3)))"
    using assms(3) by (auto dest: set_dropWhileD)
  ultimately show ?thesis
    using assms(2) by (simp add: split_sep_first split_sep_none)
qed

lemma split_strip_join2:
  assumes "CHR '','' \<notin> set p1" "CHR '','' \<notin> set p2"
  shows "split_sep CHR '','' (strip (join_sep CHR '','' [p1, p2])) =
           [dropWhile isspace p1, rev (dropWhile isspace (rev p2))]"
proof -
  have ns: "\<not> isspace CHR '',''" by (simp add: isspace_def)
  have "strip (p1 @ CHR '','' # p2) =
          dropWhile isspace p1 @ CHR '','' # rev (dropWhile isspace (rev p2))"
    unfolding strip_def strip_with_append_keep [of isspace "CHR '',''", OF ns] ..
  moreover have "CHR '','' \<notin> set (dropWhile isspace p1)"
    using assms(1) by (auto dest: set_dropWhileD)
  moreover have "CHR '','' \<notin> set (rev (dropWhile isspace (rev p2)))"
    using assms(2) by (auto dest: set_dropWhileD)
  ultimately show ?thesis
    by (simp add: split_sep_first split_sep_none)
qed

lemma stock_permutation:
  assumes ok: "stock_build s = Returned (Record r)"
    and perm: "mset ps = mset (split_sep CHR '','' (strip s))"
  shows "stock_build (join_sep CHR '','' ps) = Returned (Record r)"
proof -
  let ?parts = "split_sep CHR '','' (strip s)"
  have len: "length ?parts = 3"
    using ok by (auto simp: stock_build_def Let_def split: if_splits)
  then obtain a b c where parts: "?parts = [a, b, c]"
    by (auto simp: length_Suc_conv eval_nat_numeral)
  obtain vars where segs: "stock_segments [a, b, c] (None, None, None) = Inr vars"
    and val: "stock_validate vars = Returned (Record r)"
    using ok len unfolding stock_build_def Let_def parts
    by (cases "stock_segments [a, b, c] (None, None, None)") simp_all
  obtain x y z where vars: "vars = (Some x, Some y, Some z)"
    using stock_validate_Record [of "fst vars" "fst (snd vars)" "snd (snd vars)" r] val
    by (cases vars) auto
  let ?M = "{#Inr (''buyer_part_number'', x), Inr (''order_quantity'', y),
             Inr (''requested_fulfillment_date'', z)#}"
  have M: "mset (map key_value [a, b, c]) = ?M"
    using segs unfolding vars by (rule stock_segments3_mset)
  have "length ps = 3"
    using perm len by (metis size_mset)
  then obtain p1 p2 p3 where ps: "ps = [p1, p2, p3]"
    by (auto simp: length_Suc_conv eval_nat_numeral)
  have "set ps = set ?parts" using perm by (rule mset_eq_setD)
  then have nc: "CHR '','' \<notin> set p1" "CHR '','' \<notin> set p2" "CHR '','' \<notin> set p3"
    using split_sep_no_sep [of _ "CHR '',''" "strip s"] unfolding ps by auto
  have Mps: "mset (map key_value [p1, p2, p3]) = ?M"
    using M perm unfolding parts ps by (metis mset_map)
  then have "key_value p1 \<in># ?M" "key_value p3 \<in># ?M"
    by (metis list.set_intros(1) list.simps(9) set_mset_mset,
        metis insert_iff list.simps(15) list.simps(9) set_mset_mset)
  then obtain kv1 kv3 where k1: "key_value p1 = Inr kv1" and k3: "key_value p3 = Inr kv3"
    by auto
  have "map key_value [dropWhile isspace p1, p2, rev (dropWhile isspace (rev p3))]
        = map key_value [p1, p2, p3]"
    using key_value_lstrip [OF k1] key_value_rstrip [OF k3] k1 k3 by simp
  with Mps have "mset (map key_value
          [dropWhile isspace p1, p2, rev (dropWhile isspace (rev p3))]) = ?M"
    by (simp only:)
  then have "stock_segments [dropWhile isspace p1, p2, rev (dropWhile isspace (rev p3))]
               (None, None, None) = Inr vars"
    unfolding vars by (rule mset3_stock_segments)
  then show ?thesis
    unfolding stock_build_def Let_def ps split_strip_join3 [OF nc]
    by (simp add: val)
qed

lemma price_permutation:
  assumes ok: "price_build s = Returned (Record r)"
    and perm: "mset ps = mset (split_sep CHR '','' (strip s))"
  shows "price_build (join_sep CHR '','' ps) = Returned (Record r)"
proof -
  let ?parts = "split_sep CHR '','' (strip s)"
  have len: "length ?parts = 2"
    using ok by (auto simp: price_build_def Let_def split: if_splits)
  then obtain a b where parts: "?parts = [a, b]"
    by (auto simp: length_Suc_conv eval_nat_numeral)
  obtain vars where segs: "price_segments [a, b] (None, None) = Inr vars"
    and val: "price_validate vars = Returned (Record r)"
    using ok len unfolding price_build_def Let_def parts
    by (cases "price_segments [a, b] (None, None)") simp_all
  obtain x y where vars: "vars = (Some x, Some y)"
    using price_validate_Record [of "fst vars" "snd vars" r] val
    by (cases vars) auto
  let ?M = "{#Inr (''buyer_part_number'', x), Inr (''po_price'', y)#}"
  have M: "mset (map key_value [a, b]) = ?M"
    using segs unfolding vars by (rule price_segments2_mset)
  have "length ps = 2"
    using perm len by (metis size_mset)
  then obtain p1 p2 where ps: "ps = [p1, p2]"
    by (auto simp: length_Suc_conv eval_nat_numeral)
  have "set ps = set ?parts" using perm by (rule mset_eq_setD)
  then have nc: "CHR '','' \<notin> set p1" "CHR '','' \<notin> set p2"
    using split_sep_no_sep [of _ "CHR '',''" "strip s"] unfolding ps by auto
  have Mps: "mset (map key_value [p1, p2]) = ?M"
    using M perm unfolding parts ps by (metis mset_map)
  then have "key_value p1 \<in># ?M" "key_value p2 \<in># ?M"
    by (metis list.set_intros(1) list.simps(9) set_mset_mset,
        metis insert_iff list.simps(15) list.simps(9) set_mset_mset)
  then obtain kv1 kv2 where k1: "key_value p1 = Inr kv1" and k2: "key_value p2 = Inr kv2"
    by auto
  have "map key_value [dropWhile isspace p1, rev (dropWhile isspace (rev p2))]
        = map key_value [p1, p2]"
    using key_value_lstrip [OF k1] key_value_rstrip [OF k2] k1 k2 by simp
  with Mps have "mset (map key_value
          [dropWhile isspace p1, rev (dropWhile isspace (rev p2))]) = ?M"
    by (simp only:)
  then have "price_segments [dropWhile isspace p1, rev (dropWhile isspace (rev p2))]
               (None, None) = Inr vars"
    unfolding vars by (rule mset2_price_segments)
  then show ?thesis
    unfolding price_build_def Let_def ps split_strip_join2 [OF nc]
    by (simp add: val)
qed

text \<open>
  Claim C4. When an input parses to a record, every input written from a permutation of
  its comma-separated segments parses to the same record, for the inventory tool and for
  the price tool: the values do not depend on where a segment stands. The segments are
  those of the trimmed input, as \<^verbatim>\<open>build\<close> splits it.
\<close>

theorem segment_order_irrelevant:
  "(stock_build input_str = Returned (Record r) \<and>
      mset ps = mset (split_sep CHR '','' (strip input_str)) \<longrightarrow>
      stock_build (join_sep CHR '','' ps) = Returned (Record r)) \<and>
   (price_build input_str = Returned (Record r) \<and>
      mset ps = mset (split_sep CHR '','' (strip input_str)) \<longrightarrow>
      price_build (join_sep CHR '','' ps) = Returned (Record r))"
  using stock_permutation price_permutation by blast

theorem segment_order_irrelevant_witness:
  "stock_build
     ''buyer_part_number=\"3010228002\", order_quantity=\"32100.000\", requested_fulfillment_date=\"02/13/2025\"''
   = Returned (Record
       [(''buyer_part_number'', PyStr ''3010228002''),
        (''order_quantity'', PyInt 32100),
        (''requested_fulfillment_date'', PyStr ''2025-02-13'')]) \<and>
   mset ['' requested_fulfillment_date=\"02/13/2025\"'', ''buyer_part_number=\"3010228002\"'',
         '' order_quantity=\"32100.000\"'']
   = mset (split_sep CHR '','' (strip
       ''buyer_part_number=\"3010228002\", order_quantity=\"32100.000\", requested_fulfillment_date=\"02/13/2025\"'')) \<and>
   stock_build
     '' requested_fulfillment_date=\"02/13/2025\",buyer_part_number=\"3010228002\", order_quantity=\"32100.000\"''
   = Returned (Record
       [(''buyer_part_number'', PyStr ''3010228002''),
        (''order_quantity'', PyInt 32100),
        (''requested_fulfillment_date'', PyStr ''2025-02-13'')])"
proof -
  let ?s = "''buyer_part_number=\"3010228002\", order_quantity=\"32100.000\", requested_fulfillment_date=\"02/13/2025\"''"
  let ?r = "[(''buyer_part_number'', PyStr ''3010228002''),
        (''order_quantity'', PyInt 32100),
        (''requested_fulfillment_date'', PyStr ''2025-02-13'')]"
  let ?ps = "['' requested_fulfillment_date=\"02/13/2025\"'', ''buyer_part_number=\"3010228002\"'',
         '' order_quantity=\"32100.000\"'']"
  have ok: "stock_build ?s = Returned (Record ?r)"
    by code_simp
  have sp: "split_sep CHR '','' (strip ?s) =
      [''buyer_part_number=\"3010228002\"'', '' order_quantity=\"32100.000\"'',
       '' requested_fulfillment_date=\"02/13/2025\"'']"
    by code_simp
  have perm: "mset ?ps = mset (split_sep CHR '','' (strip ?s))"
    unfolding sp by (simp add: add_mset_commute)
  have "stock_build (join_sep CHR '','' ?ps) = Returned (Record ?r)"
    using segment_order_irrelevant [of ?s ?r ?ps, THEN conjunct1] ok perm by blast
  then have "stock_build
     '' requested_fulfillment_date=\"02/13/2025\",buyer_part_number=\"3010228002\", order_quantity=\"32100.000\"''
     = Returned (Record ?r)"
    by simp
  with ok perm show ?thesis by blast
qed

end
